theory Spec2Isabelle
  imports Complex_Main "HOL-Library.AList" "HOL-Library.Multiset" "HOL-Library.Sublist"
begin

section \<open>Python values, errors and dictionaries\<close>

text \<open>
  The module \<^verbatim>\<open>oauth_access/access.py\<close> is Python 2. Byte strings are \<^typ>\<open>string\<close>.
  A value that comes out of \<^verbatim>\<open>json.loads\<close> or \<^verbatim>\<open>dict(urlparse.parse_qsl(...))\<close> is a
  \<open>pyval\<close>; a dictionary is an association list read through \<^const>\<open>map_of\<close>
  (the first entry of a key is the one that counts), so that \<^const>\<open>AList.update\<close>,
  \<^const>\<open>AList.delete\<close> and \<^const>\<open>AList.merge\<close> are item assignment, \<^verbatim>\<open>pop\<close> and
  \<^verbatim>\<open>update\<close>.
\<close>

datatype pyfloat = Finite rat | NaN | PosInf | NegInf

datatype pyval =
    PNone
  | PBool bool
  | PInt int
  | PFloat pyfloat
  | PStr string
  | PList "pyval list"
  | PDict "(string \<times> pyval) list"

text \<open>Every exception the module raises itself, or that a builtin raises inside it.\<close>

datatype error =
    NotImplementedError
  | AttributeError string
  | TypeError
  | ValueError
  | OverflowError
  | KeyError string
  | NotAuthorized
  | ServiceFail string "string option"
  | MissingToken
  | Exception string
  | LibraryError string

type_synonym params = "(string \<times> string) list"

text \<open>Truth value testing (\<^verbatim>\<open>if d\<close>, \<^verbatim>\<open>d and ...\<close>).\<close>

fun truthy :: "pyval \<Rightarrow> bool" where
  "truthy PNone = False"
| "truthy (PBool b) = b"
| "truthy (PInt i) = (i \<noteq> 0)"
| "truthy (PFloat (Finite q)) = (q \<noteq> 0)"
| "truthy (PFloat _) = True"
| "truthy (PStr s) = (s \<noteq> [])"
| "truthy (PList xs) = (xs \<noteq> [])"
| "truthy (PDict d) = (d \<noteq> [])"

text \<open>\<^verbatim>\<open>'key' in d\<close>: membership in a dict's keys, in a list, substring of a string;
  a \<^verbatim>\<open>TypeError\<close> on anything that is no container.\<close>

fun py_in :: "string \<Rightarrow> pyval \<Rightarrow> error + bool" where
  "py_in k (PDict d) = Inr (k \<in> set (map fst d))"
| "py_in k (PList xs) = Inr (PStr k \<in> set xs)"
| "py_in k (PStr s) = Inr (sublist k s)"
| "py_in k _ = Inl TypeError"

text \<open>\<^verbatim>\<open>d['key']\<close> with a string key.\<close>

fun py_getitem :: "pyval \<Rightarrow> string \<Rightarrow> error + pyval" where
  "py_getitem (PDict d) k = (case map_of d k of None \<Rightarrow> Inl (KeyError k) | Some v \<Rightarrow> Inr v)"
| "py_getitem _ k = Inl TypeError"

text \<open>\<^verbatim>\<open>d.pop('key')\<close>: the value and the dictionary without the key. Strings have no
  \<^verbatim>\<open>pop\<close>; \<^verbatim>\<open>list.pop\<close> wants an integer.\<close>

fun py_pop :: "pyval \<Rightarrow> string \<Rightarrow> error + (pyval \<times> pyval)" where
  "py_pop (PDict d) k =
     (case map_of d k of None \<Rightarrow> Inl (KeyError k) | Some v \<Rightarrow> Inr (v, PDict (AList.delete k d)))"
| "py_pop (PList xs) k = Inl TypeError"
| "py_pop _ k = Inl (AttributeError ''pop'')"

text \<open>\<^verbatim>\<open>d['key'] = v\<close>.\<close>

fun py_setitem :: "pyval \<Rightarrow> string \<Rightarrow> pyval \<Rightarrow> error + pyval" where
  "py_setitem (PDict d) k v = Inr (PDict (AList.update k v d))"
| "py_setitem _ k v = Inl TypeError"

text \<open>\<^verbatim>\<open>d.get('key', None)\<close>.\<close>

fun py_get :: "pyval \<Rightarrow> string \<Rightarrow> error + pyval" where
  "py_get (PDict d) k = Inr (case map_of d k of None \<Rightarrow> PNone | Some v \<Rightarrow> v)"
| "py_get _ k = Inl (AttributeError ''get'')"

text \<open>\<^verbatim>\<open>dict(pairs)\<close>: a later pair of the same key replaces an earlier one.\<close>

definition py_dict :: "('k \<times> 'v) list \<Rightarrow> ('k \<times> 'v) list" where
  "py_dict pairs = fold (\<lambda>(k, v). AList.update k v) pairs []"

text \<open>\<^verbatim>\<open>sep.join(xs)\<close>.\<close>

fun join :: "string \<Rightarrow> string list \<Rightarrow> string" where
  "join sep [] = []"
| "join sep [x] = x"
| "join sep (x # y # ys) = x @ sep @ join sep (y # ys)"

section \<open>\<^verbatim>\<open>urllib.quote_plus\<close> and \<^verbatim>\<open>urllib.urlencode\<close>\<close>

text \<open>
  Python 2's \<^verbatim>\<open>quote_plus(s)\<close> keeps letters, digits and \<^verbatim>\<open>_.-\<close>, writes a space as
  \<^verbatim>\<open>+\<close> and every other byte as \<^verbatim>\<open>%XX\<close> with upper-case hexadecimal digits.
\<close>

definition always_safe :: "char \<Rightarrow> bool" where
  "always_safe c \<longleftrightarrow>
     c \<in> set ''ABCDEFGHIJKLMNOPQRSTUVWXYZabcdefghijklmnopqrstuvwxyz0123456789_.-''"

definition hex_digit :: "nat \<Rightarrow> char" where
  "hex_digit n = ''0123456789ABCDEF'' ! (n mod 16)"

definition quote_char :: "char \<Rightarrow> string" where
  "quote_char c =
     (if always_safe c then [c]
      else if c = CHR '' '' then ''+''
      else [CHR ''%'', hex_digit (of_char c div 16), hex_digit (of_char c)])"

definition quote_plus :: "string \<Rightarrow> string" where
  "quote_plus s = concat (map quote_char s)"

definition urlencode_pair :: "string \<times> string \<Rightarrow> string" where
  "urlencode_pair kv = quote_plus (fst kv) @ ''='' @ quote_plus (snd kv)"

text \<open>
  \<^verbatim>\<open>urlencode(query)\<close> walks \<^verbatim>\<open>query.items()\<close>. Python 2 does not fix the order in which
  a dict is listed, so the listing is the parameter \<open>items\<close>.
\<close>

definition urlencode :: "(params \<Rightarrow> params) \<Rightarrow> params \<Rightarrow> string" where
  "urlencode items query = join ''&'' (map urlencode_pair (items query))"

text \<open>\<^verbatim>\<open>int(v)\<close>. How the builtin reads a string is the parameter \<open>int_of_str\<close>
  (\<open>None\<close> is its \<^verbatim>\<open>ValueError\<close>); a float is truncated towards zero.\<close>

fun py_int :: "(string \<Rightarrow> int option) \<Rightarrow> pyval \<Rightarrow> error + int" where
  "py_int int_of_str (PInt i) = Inr i"
| "py_int int_of_str (PBool b) = Inr (if b then 1 else 0)"
| "py_int int_of_str (PFloat (Finite q)) = Inr (if 0 \<le> q then \<lfloor>q\<rfloor> else \<lceil>q\<rceil>)"
| "py_int int_of_str (PFloat NaN) = Inl ValueError"
| "py_int int_of_str (PFloat _) = Inl OverflowError"
| "py_int int_of_str (PStr s) = (case int_of_str s of None \<Rightarrow> Inl ValueError | Some i \<Rightarrow> Inr i)"
| "py_int int_of_str _ = Inl TypeError"

text \<open>Sequencing of steps that may raise: the first exception ends the computation.\<close>

definition and_then :: "error + 'a \<Rightarrow> ('a \<Rightarrow> error + 'b) \<Rightarrow> error + 'b" where
  "and_then m f = (case m of Inl e \<Rightarrow> Inl e | Inr x \<Rightarrow> f x)"

section \<open>Tokens, flow instances and the network\<close>

text \<open>
  Modelled from the spec: the class \<^verbatim>\<open>OAuth20Token\<close> of \<^verbatim>\<open>oauth_access/utils\<close> is not
  among the sources. The spec describes it as the bundle of access token, optional
  refresh token and optional integer expiry in seconds, stored as given.
\<close>

record oauth20_token =
  bundle_access_token :: pyval
  bundle_refresh_token :: pyval
  bundle_expires_in :: "int option"

definition OAuth20Token :: "pyval \<Rightarrow> pyval \<Rightarrow> int option \<Rightarrow> oauth20_token" where
  "OAuth20Token access refresh expiry =
     \<lparr>bundle_access_token = access, bundle_refresh_token = refresh, bundle_expires_in = expiry\<rparr>"

text \<open>What a caller can pass as \<^verbatim>\<open>token\<close> or keep in \<^verbatim>\<open>self.access_token\<close>: a string, an
  OAuth2 bundle, or an \<^verbatim>\<open>oauth.Token\<close> (key and secret). Python's \<^verbatim>\<open>None\<close> is \<open>None\<close>.
  In \<^verbatim>\<open>token or ...\<close> a string counts as true when it is not empty and a token object
  always, as an instance of a class without \<^verbatim>\<open>__nonzero__\<close> and \<^verbatim>\<open>__len__\<close> does.\<close>

datatype token_val = TStr string | TBundle oauth20_token | TOAuth string string

fun token_truthy :: "token_val option \<Rightarrow> bool" where
  "token_truthy None = False"
| "token_truthy (Some (TStr s)) = (s \<noteq> [])"
| "token_truthy (Some _) = True"

datatype variant = BaseAccess | OAuthAccess | OAuth2Access

text \<open>
  The attributes of a flow instance. \<open>cls\<close> is its class. The class attributes have
  their defaults (\<^verbatim>\<open>None\<close>, \<^verbatim>\<open>[]\<close>, \<^verbatim>\<open>{}\<close>); \<open>callback_url\<close>, \<open>code\<close>, \<open>oauth_token\<close>,
  \<open>oauth_token_secret\<close> and \<open>access_token\<close> exist only once a keyword argument of
  \<^verbatim>\<open>__init__\<close> or a step of the flow has set them, and are \<open>None\<close> before.
\<close>

record flow =
  cls :: variant
  consumer_key :: string
  consumer_secret :: string
  user_agent :: "string option"
  request_token_url :: "string option"
  access_token_url :: "string option"
  authorize_url :: "string option"
  scope_urls :: "string list"
  extra_auth_params :: params
  callback_url :: "string option"
  code :: "string option"
  oauth_token :: "pyval option"
  oauth_token_secret :: "pyval option"
  access_token :: "token_val option"

text \<open>\<^verbatim>\<open>__init__\<close>: the two credentials, then every keyword argument as an attribute;
  here the instance before any keyword argument.\<close>

definition init :: "variant \<Rightarrow> string \<Rightarrow> string \<Rightarrow> flow" where
  "init c key secret =
     \<lparr>cls = c, consumer_key = key, consumer_secret = secret, user_agent = None,
      request_token_url = None, access_token_url = None, authorize_url = None,
      scope_urls = [], extra_auth_params = [], callback_url = None, code = None,
      oauth_token = None, oauth_token_secret = None, access_token = None\<rparr>"

text \<open>A request handed to \<^verbatim>\<open>httplib2.Http().request\<close>; \<open>None\<close> is an argument not passed.\<close>

record http_request =
  req_url :: "string option"
  req_method :: string
  req_body :: "string option"
  req_headers :: "params option"

text \<open>A request handed to a signing client (\<^verbatim>\<open>oauth.Client\<close>, or \<^verbatim>\<open>Client\<close> of
  \<^verbatim>\<open>oauth_access/utils\<close>), with the consumer and token the client was built from.\<close>

record signed_request =
  sreq_consumer :: "string \<times> string"
  sreq_token :: "token_val option"
  sreq_url :: string
  sreq_method :: string
  sreq_force_auth_header :: bool
  sreq_headers :: "params option"
  sreq_body :: "string option"
  sreq_parameters :: "params option"

text \<open>A response: \<^verbatim>\<open>resp.status\<close> and the mapping read by \<^verbatim>\<open>resp['status']\<close>.\<close>

record http_response =
  resp_status :: int
  resp_fields :: params

datatype net_call = HttpCall http_request | OAuthClientCall signed_request | ClientCall signed_request

type_synonym 'r transport = "'r \<Rightarrow> error + (http_response \<times> string)"

text \<open>Keyword arguments of an API call: \<open>None\<close> is a key that is not in \<^verbatim>\<open>kwargs\<close>.\<close>

record 'f kwargs =
  kw_params :: "params option"
  kw_files :: "'f option"

text \<open>
  The collaborators of the module, all outside it: the order in which a dict lists its
  items, the parsers, the transports (a transport may raise), \<^verbatim>\<open>str\<close> and
  \<^verbatim>\<open>oauth.Token.from_string\<close> on tokens, and the multipart encoder. \<open>client_new\<close> is
  the constructor \<^verbatim>\<open>Client(self.consumer, token=token)\<close> of \<^verbatim>\<open>oauth_access/utils\<close>: the
  exception it raises for the token, or \<open>None\<close> when it builds the client. \<open>'f\<close> is the
  type of file attachments, \<open>'x\<close> the type of a parsed XML tree.
\<close>

record ('f, 'x) env =
  dict_items :: "params \<Rightarrow> params"
  json_loads :: "string \<Rightarrow> pyval option"
  parse_qsl :: "string \<Rightarrow> (string \<times> string) list"
  int_of_str :: "string \<Rightarrow> int option"
  xml_fromstring :: "string \<Rightarrow> error + 'x"
  http_request :: "http_request transport"
  oauth_client_request :: "signed_request transport"
  client_new :: "token_val option \<Rightarrow> error option"
  client_request :: "signed_request transport"
  token_from_string :: "string \<Rightarrow> error + token_val"
  token_str :: "token_val \<Rightarrow> string"
  get_headers_and_body :: "params \<Rightarrow> 'f \<Rightarrow> params \<times> string"

text \<open>The state a call works on: the instance and the requests sent so far.\<close>

record world =
  inst :: flow
  sent :: "net_call list"

definition send :: "net_call \<Rightarrow> world \<Rightarrow> world" where
  "send c w = w\<lparr>sent := sent w @ [c]\<rparr>"

section \<open>\<^verbatim>\<open>BaseAccess.get_params\<close> and the authorization parameters\<close>

text \<open>\<^verbatim>\<open>"%s" % v\<close> of an attribute that is a string or \<^verbatim>\<open>None\<close>.\<close>

definition py_str :: "string option \<Rightarrow> string" where
  "py_str v = (case v of None \<Rightarrow> ''None'' | Some s \<Rightarrow> s)"

definition get_params :: "('f, 'x) env \<Rightarrow> flow \<Rightarrow> params option \<Rightarrow> string" where
  "get_params E self params0 =
     (let params = (case params0 of None \<Rightarrow> [] | Some d \<Rightarrow> d);
          params = (if scope_urls self \<noteq> []
                    then AList.update ''scope'' (join '' '' (scope_urls self)) params
                    else params)
      in urlencode (dict_items E) params)"

definition OAuthAccess_get_auth_params :: "flow \<Rightarrow> error + params" where
  "OAuthAccess_get_auth_params self =
     (case callback_url self of
        None \<Rightarrow> Inl (AttributeError ''callback_url'')
      | Some cb \<Rightarrow>
          (let params = [(''oauth_callback'', cb)]
           in Inr (if extra_auth_params self \<noteq> []
                   then AList.merge params (extra_auth_params self) else params)))"

definition OAuth2Access_get_auth_params :: "flow \<Rightarrow> error + params" where
  "OAuth2Access_get_auth_params self =
     (case callback_url self of
        None \<Rightarrow> Inl (AttributeError ''callback_url'')
      | Some cb \<Rightarrow>
          (let params = [(''client_id'', consumer_key self), (''redirect_uri'', cb),
                         (''response_type'', ''code'')]
           in Inr (if extra_auth_params self \<noteq> []
                   then AList.merge params (extra_auth_params self) else params)))"

section \<open>Step 1: \<^verbatim>\<open>get_tokens\<close> and \<^verbatim>\<open>get_auth_url\<close>\<close>

text \<open>\<^verbatim>\<open>token.get(key)\<close> on the dict of a parsed query string.\<close>

definition qs_get :: "params \<Rightarrow> string \<Rightarrow> pyval" where
  "qs_get token k = (case map_of token k of None \<Rightarrow> PNone | Some v \<Rightarrow> PStr v)"

text \<open>Lines 99 to 104: the request for a request token, signed with the consumer alone.\<close>

definition request_token_request :: "('f, 'x) env \<Rightarrow> flow \<Rightarrow> params \<Rightarrow> signed_request" where
  "request_token_request E self auth_params =
     \<lparr>sreq_consumer = (consumer_key self, consumer_secret self),
      sreq_token = None,
      sreq_url = py_str (request_token_url self) @ ''?'' @ get_params E self (Some auth_params),
      sreq_method = ''GET'', sreq_force_auth_header = False,
      sreq_headers = None, sreq_body = None, sreq_parameters = None\<rparr>"

definition OAuthAccess_get_tokens :: "('f, 'x) env \<Rightarrow> world \<Rightarrow> (error + pyval) \<times> world" where
  "OAuthAccess_get_tokens E w =
     (let self = inst w in
      case OAuthAccess_get_auth_params self of
        Inl e \<Rightarrow> (Inl e, w)
      | Inr auth_params \<Rightarrow>
          (let rq = request_token_request E self auth_params;
               w1 = send (OAuthClientCall rq) w
           in case oauth_client_request E rq of
                Inl e \<Rightarrow> (Inl e, w1)
              | Inr (resp, content) \<Rightarrow>
                  (case map_of (resp_fields resp) ''status'' of
                     None \<Rightarrow> (Inl (KeyError ''status''), w1)
                   | Some st \<Rightarrow>
                       if st \<noteq> ''200''
                       then (Inl (Exception (''Invalid response '' @ st @ ''.'')), w1)
                       else
                         (let token = py_dict (parse_qsl E content);
                              tok = qs_get token ''oauth_token'';
                              sec = qs_get token ''oauth_token_secret''
                          in (Inr (PDict [(''oauth_token'', tok), (''oauth_token_secret'', sec)]),
                              w1\<lparr>inst := self\<lparr>oauth_token := Some tok,
                                                oauth_token_secret := Some sec\<rparr>\<rparr>)))))"

definition OAuth2Access_get_tokens :: "world \<Rightarrow> (error + pyval) \<times> world" where
  "OAuth2Access_get_tokens w = (Inr PNone, w)"

text \<open>\<^verbatim>\<open>OAuth2Access.get_auth_url\<close> reads the instance and returns a string: it has no
  state to change and no transport to call.\<close>

definition OAuth2Access_get_auth_url :: "('f, 'x) env \<Rightarrow> flow \<Rightarrow> error + string" where
  "OAuth2Access_get_auth_url E self =
     and_then (OAuth2Access_get_auth_params self) (\<lambda>auth_params.
       (let params = get_params E self (Some auth_params)
        in case authorize_url self of
             None \<Rightarrow> Inl TypeError
           | Some u \<Rightarrow> Inr (u @ ''?'' @ params)))"

section \<open>Step 2: \<^verbatim>\<open>OAuth2Access.receive_access_tokens\<close>\<close>

text \<open>Lines 204 to 207: the body as JSON, else as a url-encoded query string.\<close>

definition parse_body :: "('f, 'x) env \<Rightarrow> string \<Rightarrow> pyval" where
  "parse_body E content =
     (case json_loads E content of
        Some v \<Rightarrow> v
      | None \<Rightarrow> PDict (map (\<lambda>(k, v). (k, PStr v)) (py_dict (parse_qsl E content))))"

text \<open>Lines 210 and 211: \<^verbatim>\<open>if d and 'expires' in d: d['expires_in'] = d.pop('expires')\<close>.\<close>

definition rename_expires :: "pyval \<Rightarrow> error + pyval" where
  "rename_expires d =
     (if truthy d
      then and_then (py_in ''expires'' d) (\<lambda>has.
             if has
             then and_then (py_pop d ''expires'') (\<lambda>(v, d'). py_setitem d' ''expires_in'' v)
             else Inr d)
      else Inr d)"

text \<open>What lines 210 and 211 make of a dict, in closed form.\<close>

definition renamed :: "(string \<times> pyval) list \<Rightarrow> (string \<times> pyval) list" where
  "renamed d =
     (case map_of d ''expires'' of
        None \<Rightarrow> d
      | Some v \<Rightarrow> AList.update ''expires_in'' v (AList.delete ''expires'' d))"

text \<open>Lines 212 to 221: the token bundle, or \<^verbatim>\<open>MissingToken\<close>. \<^verbatim>\<open>and\<close> does not look
  at \<^verbatim>\<open>d\<close> when the status is not 200.\<close>

definition build_token :: "('f, 'x) env \<Rightarrow> http_response \<Rightarrow> pyval \<Rightarrow> error + oauth20_token" where
  "build_token E resp d =
     and_then (if resp_status resp = 200 then py_in ''access_token'' d else Inr False) (\<lambda>ok.
       if ok
       then and_then (py_getitem d ''access_token'') (\<lambda>access.
            and_then (py_get d ''refresh_token'') (\<lambda>refresh.
            and_then (py_in ''expires_in'' d) (\<lambda>has.
            and_then (if has
                      then and_then (py_getitem d ''expires_in'') (\<lambda>v.
                           and_then (py_int (int_of_str E) v) (\<lambda>i. Inr (Some i)))
                      else Inr None) (\<lambda>token_expiry.
              Inr (OAuth20Token access refresh token_expiry)))))
       else Inl MissingToken)"

text \<open>Lines 184 to 196: the request of line 201, for the code \<open>c\<close> and the callback
  \<open>cb\<close>.\<close>

definition exchange_request :: "('f, 'x) env \<Rightarrow> flow \<Rightarrow> string \<Rightarrow> string \<Rightarrow> http_request" where
  "exchange_request E self c cb =
     (let body = get_params E self (Some
            [(''client_id'', consumer_key self), (''redirect_uri'', cb),
             (''client_secret'', consumer_secret self), (''code'', c),
             (''grant_type'', ''authorization_code'')]);
          headers = [(''content-type'', ''application/x-www-form-urlencoded'')];
          headers = (case user_agent self of
                       None \<Rightarrow> headers
                     | Some ua \<Rightarrow> AList.update ''user-agent'' ua headers)
      in \<lparr>req_url = access_token_url self, req_method = ''POST'',
          req_body = Some body, req_headers = Some headers\<rparr>)"

text \<open>\<^verbatim>\<open>if http is None: http = httplib2.Http()\<close>.\<close>

definition transport_of :: "('f, 'x) env \<Rightarrow> http_request transport option \<Rightarrow> http_request transport" where
  "transport_of E http = (case http of None \<Rightarrow> http_request E | Some h \<Rightarrow> h)"

definition OAuth2Access_receive_access_tokens ::
  "('f, 'x) env \<Rightarrow> world \<Rightarrow> http_request transport option
     \<Rightarrow> (error + token_val option) \<times> world" where
  "OAuth2Access_receive_access_tokens E w http =
     (let self = inst w in
      case code self of
        None \<Rightarrow> (Inr None, w)
      | Some c \<Rightarrow>
          if c = [] then (Inr None, w)
          else
            (case callback_url self of
               None \<Rightarrow> (Inl (AttributeError ''callback_url''), w)
             | Some cb \<Rightarrow>
                 (let rq = exchange_request E self c cb;
                      w1 = send (HttpCall rq) w
                  in case transport_of E http rq of
                       Inl e \<Rightarrow> (Inl e, w1)
                     | Inr (resp, content) \<Rightarrow>
                         (case and_then (rename_expires (parse_body E content)) (build_token E resp) of
                            Inl e \<Rightarrow> (Inl e, w1)
                          | Inr t \<Rightarrow>
                              (Inr (Some (TBundle t)),
                               w1\<lparr>inst := self\<lparr>access_token := Some (TBundle t)\<rparr>\<rparr>)))))"

section \<open>Authenticated calls: \<^verbatim>\<open>_make_api_call\<close> and \<^verbatim>\<open>make_api_call\<close>\<close>

text \<open>\<^verbatim>\<open>if headers\<close>: a dict that is not empty.\<close>

definition headers_given :: "params option \<Rightarrow> params option" where
  "headers_given headers = (case headers of None \<Rightarrow> None | Some h \<Rightarrow> if h = [] then None else Some h)"

text \<open>\<^verbatim>\<open>str(token)\<close>.\<close>

definition str_token :: "('f, 'x) env \<Rightarrow> token_val option \<Rightarrow> string" where
  "str_token E token =
     (case token of None \<Rightarrow> ''None'' | Some (TStr s) \<Rightarrow> s | Some t \<Rightarrow> token_str E t)"

definition OAuthAccess__make_api_call ::
  "('f, 'x) env \<Rightarrow> world \<Rightarrow> string \<Rightarrow> string \<Rightarrow> token_val option \<Rightarrow> string \<Rightarrow> params option
     \<Rightarrow> 'f kwargs \<Rightarrow> (error + (http_response \<times> string)) \<times> world" where
  "OAuthAccess__make_api_call E w kind url token method headers kw =
     (let self = inst w in
      case (case token of
              Some (TStr s) \<Rightarrow> and_then (token_from_string E s) (\<lambda>t. Inr (Some t))
            | _ \<Rightarrow> Inr token) of
        Inl e \<Rightarrow> (Inl e, w)
      | Inr token' \<Rightarrow>
          (case client_new E token' of
             Some e \<Rightarrow> (Inl e, w)
           | None \<Rightarrow>
               (let rq = \<lparr>sreq_consumer = (consumer_key self, consumer_secret self),
                          sreq_token = token', sreq_url = url, sreq_method = method,
                          sreq_force_auth_header = True, sreq_headers = headers_given headers,
                          sreq_body = None, sreq_parameters = None\<rparr>
                in if method = ''POST''
                   then (case kw_params kw of
                           None \<Rightarrow> (Inl TypeError, w)
                         | Some ps \<Rightarrow>
                             (let rq = rq\<lparr>sreq_body := Some (urlencode (dict_items E) ps)\<rparr>
                              in (client_request E rq, send (ClientCall rq) w)))
                   else if method = ''GET''
                   then (let rq = rq\<lparr>sreq_parameters := kw_params kw\<rparr>
                         in (client_request E rq, send (ClientCall rq) w))
                   else (client_request E rq, send (ClientCall rq) w))))"

definition OAuth2Access__make_api_call ::
  "('f, 'x) env \<Rightarrow> world \<Rightarrow> string \<Rightarrow> string \<Rightarrow> token_val option \<Rightarrow> string \<Rightarrow> params option
     \<Rightarrow> 'f kwargs \<Rightarrow> (error + (http_response \<times> string)) \<times> world" where
  "OAuth2Access__make_api_call E w kind url token method headers kw =
     (let params = [(''access_token'', str_token E token)];
          params = (case kw_params kw of None \<Rightarrow> params | Some ps \<Rightarrow> AList.merge params ps);
          rq = (if method = ''POST''
                then (case kw_files kw of
                        None \<Rightarrow>
                          \<lparr>req_url = Some url, req_method = method,
                           req_body = Some (urlencode (dict_items E) params),
                           req_headers = headers_given headers\<rparr>
                      | Some fs \<Rightarrow>
                          (let (headers', body) = get_headers_and_body E params fs
                           in \<lparr>req_url = Some url, req_method = method,
                               req_body = Some body, req_headers = Some headers'\<rparr>))
                else \<lparr>req_url = Some (url @ ''?'' @ urlencode (dict_items E) params),
                      req_method = method, req_body = None,
                      req_headers = headers_given headers\<rparr>)
      in (http_request E rq, send (HttpCall rq) w))"

text \<open>\<^verbatim>\<open>self._make_api_call(...)\<close>: the method of the instance's class.\<close>

definition self__make_api_call ::
  "('f, 'x) env \<Rightarrow> world \<Rightarrow> string \<Rightarrow> string \<Rightarrow> token_val option \<Rightarrow> string \<Rightarrow> params option
     \<Rightarrow> 'f kwargs \<Rightarrow> (error + (http_response \<times> string)) \<times> world" where
  "self__make_api_call E w kind url token method headers kw =
     (case cls (inst w) of
        BaseAccess \<Rightarrow> (Inl NotImplementedError, w)
      | OAuthAccess \<Rightarrow> OAuthAccess__make_api_call E w kind url token method headers kw
      | OAuth2Access \<Rightarrow> OAuth2Access__make_api_call E w kind url token method headers kw)"

datatype 'x api_result = Raw string | Json pyval | Xml 'x

text \<open>Lines 66 to 82: what \<^verbatim>\<open>make_api_call\<close> makes of the response.\<close>

definition classify :: "('f, 'x) env \<Rightarrow> string \<Rightarrow> http_response \<Rightarrow> string \<Rightarrow> error + 'x api_result" where
  "classify E kind response content =
     (case map_of (resp_fields response) ''status'' of
        None \<Rightarrow> Inl (KeyError ''status'')
      | Some st \<Rightarrow>
          if st = ''401'' then Inl NotAuthorized
          else if content = [] then Inl (ServiceFail ''no content'' None)
          else if kind = ''raw'' then Inr (Raw content)
          else if kind = ''json''
          then (case json_loads E content of
                  Some v \<Rightarrow> Inr (Json v)
                | None \<Rightarrow> Inl (ServiceFail ''JSON parse error'' (Some content)))
          else if kind = ''xml'' then and_then (xml_fromstring E content) (\<lambda>t. Inr (Xml t))
          else Inl (Exception ''unsupported API kind''))"

definition make_api_call ::
  "('f, 'x) env \<Rightarrow> world \<Rightarrow> string \<Rightarrow> string \<Rightarrow> token_val option \<Rightarrow> string \<Rightarrow> params option
     \<Rightarrow> 'f kwargs \<Rightarrow> (error + 'x api_result) \<times> world" where
  "make_api_call E w kind url token0 method headers kw =
     (let token = (if token_truthy token0 then token0 else access_token (inst w))
      in case self__make_api_call E w kind url token method headers kw of
           (Inl e, w1) \<Rightarrow> (Inl e, w1)
         | (Inr (response, content), w1) \<Rightarrow> (classify E kind response content, w1))"

section \<open>Example collaborators and instances\<close>

text \<open>A provider whose every answer has the given status (as \<^verbatim>\<open>resp.status\<close> and as
  \<^verbatim>\<open>resp['status']\<close>) and body, a JSON parser that knows five documents, a query-string
  parser that knows two (it is not asked for any other string that has a pair), and a
  dict listing in the order of insertion.\<close>

definition answer :: "int \<Rightarrow> string \<Rightarrow> string \<Rightarrow> http_response \<times> string" where
  "answer n st content = (\<lparr>resp_status = n, resp_fields = [(''status'', st)]\<rparr>, content)"

definition provider :: "int \<Rightarrow> string \<Rightarrow> string \<Rightarrow> (unit, unit) env" where
  "provider n st content =
     \<lparr>dict_items = (\<lambda>d. d),
      json_loads = (\<lambda>s.
        if s = ''{\"access_token\": \"t0\", \"expires\": 3600}''
        then Some (PDict [(''access_token'', PStr ''t0''), (''expires'', PInt 3600)])
        else if s = ''{\"access_token\": \"t0\", \"expires\": 3600, \"expires_in\": 60}''
        then Some (PDict [(''access_token'', PStr ''t0''), (''expires'', PInt 3600),
                          (''expires_in'', PInt 60)])
        else if s = ''{\"access_token\": \"t0\", \"expires_in\": null}''
        then Some (PDict [(''access_token'', PStr ''t0''), (''expires_in'', PNone)])
        else if s = ''{\"error\": \"invalid_grant\"}''
        then Some (PDict [(''error'', PStr ''invalid_grant'')])
        else if s = ''5'' then Some (PInt 5)
        else None),
      parse_qsl = (\<lambda>s. if s = ''oauth_token=rt&oauth_token_secret=rs''
                         then [(''oauth_token'', ''rt''), (''oauth_token_secret'', ''rs'')]
                         else if s = ''access_token=t1'' then [(''access_token'', ''t1'')]
                         else []),
      int_of_str = (\<lambda>s. if s = ''3600'' then Some 3600 else None),
      xml_fromstring = (\<lambda>s. Inl (LibraryError ''xml'')),
      http_request = (\<lambda>rq. Inr (answer n st content)),
      oauth_client_request = (\<lambda>rq. Inr (answer n st content)),
      client_new = (\<lambda>t. None),
      client_request = (\<lambda>rq. Inr (answer n st content)),
      token_from_string = (\<lambda>s. Inl ValueError),
      token_str = (\<lambda>t. ''token''),
      get_headers_and_body = (\<lambda>fields fs. ([(''content-type'', ''multipart/form-data'')], ''body''))\<rparr>"

text \<open>An instance of the class \<open>c\<close> with its URLs and callback set, the authorization
  code \<open>cd\<close>, no token of any kind, and nothing sent yet.\<close>

definition example_world :: "variant \<Rightarrow> string option \<Rightarrow> world" where
  "example_world c cd =
     \<lparr>inst = (init c ''abc'' ''s3cret'')
        \<lparr>authorize_url := Some ''https://p.example/auth'',
         access_token_url := Some ''https://p.example/token'',
         request_token_url := Some ''https://p.example/request'',
         callback_url := Some ''https://app.example/cb'',
         code := cd\<rparr>,
      sent = []\<rparr>"

definition no_kwargs :: "unit kwargs" where
  "no_kwargs = \<lparr>kw_params = None, kw_files = None\<rparr>"

text \<open>The request of the example OAuth2 instance for the code \<^verbatim>\<open>c0de\<close>.\<close>

definition example_exchange :: http_request where
  "example_exchange =
     \<lparr>req_url = Some ''https://p.example/token'', req_method = ''POST'',
      req_body = Some ''client_id=abc&redirect_uri=https%3A%2F%2Fapp.example%2Fcb&client_secret=s3cret&code=c0de&grant_type=authorization_code'',
      req_headers = Some [(''content-type'', ''application/x-www-form-urlencoded'')]\<rparr>"

text \<open>The request of the example OAuth1 instance for a request token.\<close>

definition example_request_token :: signed_request where
  "example_request_token =
     \<lparr>sreq_consumer = (''abc'', ''s3cret''), sreq_token = None,
      sreq_url = ''https://p.example/request?oauth_callback=https%3A%2F%2Fapp.example%2Fcb'',
      sreq_method = ''GET'', sreq_force_auth_header = False,
      sreq_headers = None, sreq_body = None, sreq_parameters = None\<rparr>"

section \<open>Facts about the dictionaries and the code exchange\<close>

lemma map_of_fold_update:
  "map_of (fold (\<lambda>(k, v). AList.update k v) ps acc) = map_of acc ++ map_of (rev ps)"
proof (induction ps arbitrary: acc)
  case Nil
  then show ?case by simp
next
  case (Cons p ps)
  obtain k v where p: "p = (k, v)" by (cases p)
  show ?case
    by (simp add: p Cons.IH update_conv' map_add_upd_left fun_eq_iff map_add_def split: option.splits)
qed

lemma map_of_rev_distinct: "distinct (map fst xs) \<Longrightarrow> map_of (rev xs) = map_of xs"
proof (induction xs)
  case Nil
  then show ?case by simp
next
  case (Cons p xs)
  obtain k v where p: "p = (k, v)" by (cases p)
  from Cons.prems have "map_of xs k = None" by (simp add: p map_of_eq_None_iff)
  with Cons show ?case
    by (auto simp: p fun_eq_iff map_add_def split: option.splits)
qed

lemma map_of_py_dict: "distinct (map fst ps) \<Longrightarrow> map_of (py_dict ps) = map_of ps"
  by (simp add: py_dict_def map_of_fold_update map_of_rev_distinct)

lemma filter_key_distinct:
  "distinct (map fst m) \<Longrightarrow> map_of m k = Some v \<Longrightarrow> filter (\<lambda>p. fst p = k) m = [(k, v)]"
proof (induction m)
  case Nil
  then show ?case by simp
next
  case (Cons p m)
  show ?case
  proof (cases "fst p = k")
    case True
    with Cons.prems have "p = (k, v)" by (cases p) simp
    moreover have "k \<notin> fst ` set m"
      using Cons.prems True by auto
    then have "filter (\<lambda>p. fst p = k) m = []"
      by (auto simp: filter_empty_conv)
    ultimately show ?thesis by simp
  next
    case False
    with Cons show ?thesis by (cases p) auto
  qed
qed

lemma rename_expires_dict: "rename_expires (PDict d) = Inr (PDict (renamed d))"
proof (cases "map_of d ''expires''")
  case None
  then have "''expires'' \<notin> set (map fst d)" by (simp add: map_of_eq_None_iff)
  with None show ?thesis by (simp add: rename_expires_def renamed_def and_then_def)
next
  case (Some v)
  then have "''expires'' \<in> set (map fst d)" by (metis map_of_eq_None_iff option.distinct(1) set_map)
  moreover from this have "d \<noteq> []" by auto
  ultimately show ?thesis using Some by (simp add: rename_expires_def renamed_def and_then_def)
qed

lemma renamed_other:
  "k \<noteq> ''expires'' \<Longrightarrow> k \<noteq> ''expires_in'' \<Longrightarrow> map_of (renamed d) k = map_of d k"
  by (simp add: renamed_def update_conv' delete_conv' split: option.splits)

lemma renamed_expires_in:
  "map_of (renamed d) ''expires_in'' =
     (case map_of d ''expires'' of None \<Rightarrow> map_of d ''expires_in'' | Some v \<Rightarrow> Some v)"
  by (simp add: renamed_def update_conv' split: option.splits)

lemma renamed_expires: "map_of (renamed d) ''expires'' = None"
  by (simp add: renamed_def update_conv' delete_conv' split: option.splits)

lemma build_token_dict:
  "build_token E resp (PDict d) =
     (if resp_status resp = 200 \<and> map_of d ''access_token'' \<noteq> None
      then and_then (case map_of d ''expires_in'' of
                       None \<Rightarrow> Inr None
                     | Some v \<Rightarrow> and_then (py_int (int_of_str E) v) (\<lambda>i. Inr (Some i)))
             (\<lambda>token_expiry. Inr (OAuth20Token (the (map_of d ''access_token''))
                (case map_of d ''refresh_token'' of None \<Rightarrow> PNone | Some r \<Rightarrow> r) token_expiry))
      else Inl MissingToken)"
proof -
  have in_iff: "\<And>k. (k \<in> set (map fst d)) = (map_of d k \<noteq> None)"
    by (simp add: map_of_eq_None_iff)
  show ?thesis
    unfolding build_token_def py_in.simps in_iff
    by (auto simp: and_then_def split: option.splits sum.splits)
qed


lemmas eval_defs =
  make_api_call_def classify_def self__make_api_call_def OAuth2Access__make_api_call_def
  OAuthAccess__make_api_call_def OAuth2Access_receive_access_tokens_def
  OAuthAccess_get_tokens_def OAuth2Access_get_auth_url_def OAuth2Access_get_auth_params_def
  OAuthAccess_get_auth_params_def request_token_request_def exchange_request_def
  transport_of_def parse_body_def get_params_def py_str_def qs_get_def py_dict_def
  provider_def answer_def example_world_def example_exchange_def init_def no_kwargs_def
  send_def str_token_def headers_given_def and_then_def OAuth20Token_def
  urlencode_def urlencode_pair_def quote_plus_def quote_char_def always_safe_def hex_digit_def

lemma inst_send: "inst (send c w) = inst w"
  by (simp add: send_def)

lemma exchange_unfold:
  assumes "code (inst w) = Some c" and "c \<noteq> []" and "callback_url (inst w) = Some cb"
    and "transport_of E http (exchange_request E (inst w) c cb) = Inr (resp, content)"
  shows "OAuth2Access_receive_access_tokens E w http =
           (case and_then (rename_expires (parse_body E content)) (build_token E resp) of
              Inl e \<Rightarrow> (Inl e, send (HttpCall (exchange_request E (inst w) c cb)) w)
            | Inr t \<Rightarrow>
                (Inr (Some (TBundle t)),
                 (send (HttpCall (exchange_request E (inst w) c cb)) w)
                   \<lparr>inst := (inst w)\<lparr>access_token := Some (TBundle t)\<rparr>\<rparr>))"
  using assms by (simp add: OAuth2Access_receive_access_tokens_def Let_def)

lemma exchange_dict:
  "and_then (rename_expires (PDict d)) (build_token E resp) = build_token E resp (PDict (renamed d))"
  by (simp add: rename_expires_dict and_then_def)

lemma exchange_run:
  assumes "code (inst w) = Some c" and "c \<noteq> []" and "callback_url (inst w) = Some cb"
    and "transport_of E http (exchange_request E (inst w) c cb) = Inr (resp, content)"
    and "parse_body E content = PDict d"
  shows "OAuth2Access_receive_access_tokens E w http =
      (case build_token E resp (PDict (renamed d)) of
         Inl e \<Rightarrow> (Inl e, send (HttpCall (exchange_request E (inst w) c cb)) w)
       | Inr t \<Rightarrow>
           (Inr (Some (TBundle t)),
            (send (HttpCall (exchange_request E (inst w) c cb)) w)
              \<lparr>inst := (inst w)\<lparr>access_token := Some (TBundle t)\<rparr>\<rparr>))"
  using assms by (simp add: exchange_unfold exchange_dict)

lemma build_token_renamed:
  assumes "resp_status resp = 200" and "map_of d ''access_token'' = Some a"
    and "map_of d ''expires'' = Some v"
  shows "build_token E resp (PDict (renamed d)) =
           and_then (py_int (int_of_str E) v) (\<lambda>i.
             Inr (OAuth20Token a (case map_of d ''refresh_token'' of None \<Rightarrow> PNone | Some r \<Rightarrow> r)
                    (Some i)))"
  using assms
  by (simp add: build_token_dict renamed_other renamed_expires_in and_then_def split: sum.splits)

lemma example_exchange_request:
  "exchange_request (provider n st content) (inst (example_world OAuth2Access (Some ''c0de'')))
     ''c0de'' ''https://app.example/cb'' = example_exchange"
  by (simp add: eval_defs)

lemma example_transport:
  "transport_of (provider n st content) None example_exchange = Inr (answer n st content)"
  by (simp add: transport_of_def provider_def)

lemma example_code:
  "code (inst (example_world OAuth2Access (Some ''c0de''))) = Some ''c0de''"
  "callback_url (inst (example_world OAuth2Access (Some ''c0de''))) = Some ''https://app.example/cb''"
  by (simp_all add: example_world_def init_def)

lemma qs_get_py_dict:
  assumes "distinct (map fst pairs)" and "(k, v) \<in> set pairs"
  shows "qs_get (py_dict pairs) k = PStr v"
  using assms by (simp add: qs_get_def map_of_py_dict)

lemma example_request_token_request:
  "request_token_request (provider n st content) (inst (example_world OAuthAccess None))
     [(''oauth_callback'', ''https://app.example/cb'')] = example_request_token"
  by (simp add: eval_defs example_request_token_def)

lemma example_auth_params:
  "OAuthAccess_get_auth_params (inst (example_world OAuthAccess None))
     = Inr [(''oauth_callback'', ''https://app.example/cb'')]"
  by (simp add: OAuthAccess_get_auth_params_def example_world_def init_def)

lemma mset_map_listing:
  "mset xs = mset ys \<Longrightarrow> mset (map f xs) = image_mset f (mset ys)"
  by (metis mset_map)

lemma merge_access_token:
  assumes "map_of ps k = Some v"
  shows "filter (\<lambda>p. fst p = k) (AList.merge [(k, t)] ps) = [(k, v)]"
proof -
  have "distinct (map fst (AList.merge [(k, t)] ps))"
    by (rule distinct_merge) simp
  moreover have "map_of (AList.merge [(k, t)] ps) k = Some v"
    using assms by simp
  ultimately show ?thesis by (rule filter_key_distinct)
qed

lemma filter_listing:
  assumes "mset xs = mset ys" and "filter P ys = [y]"
  shows "filter P xs = [y]"
proof -
  have "mset (filter P xs) = mset (filter P ys)"
    using assms(1) by (metis mset_filter)
  then have "mset (filter P xs) = {#y#}"
    unfolding assms(2) by simp
  then show ?thesis
    by (rule mset_single_iff [THEN iffD1])
qed

section \<open>The claims\<close>

subsection \<open>C1: a call without any token\<close>

text \<open>
  C1 says that \<^verbatim>\<open>make_api_call\<close>, called with no token argument on an instance that has no
  stored access token, fails with \<^verbatim>\<open>MissingToken\<close> before \<^verbatim>\<open>_make_api_call\<close> is reached.
  Line 64 only picks the token; nothing tests it. On the example OAuth2 instance the call
  sends \<^verbatim>\<open>access_token=None\<close> to the provider and returns the body.
\<close>

theorem make_api_call_without_token_counterexample:
  "make_api_call (provider 200 ''200'' ''ok'') (example_world OAuth2Access None) ''raw''
        ''https://api.example/me'' None ''GET'' None no_kwargs
     = (Inr (Raw ''ok''),
        send (HttpCall
               \<lparr>req_url = Some ''https://api.example/me?access_token=None'',
                req_method = ''GET'', req_body = None, req_headers = None\<rparr>)
          (example_world OAuth2Access None))
   \<and> access_token (inst (example_world OAuth2Access None)) = None"
  by (simp add: eval_defs)

text \<open>
  C1 as the code has it: with no token argument and no stored access token,
  \<^verbatim>\<open>make_api_call\<close> calls \<^verbatim>\<open>_make_api_call\<close> with the token \<^verbatim>\<open>None\<close> and its outcome is
  that of the dispatch followed by the classification of the response. On a
  \<^verbatim>\<open>BaseAccess\<close> instance this is \<^verbatim>\<open>NotImplementedError\<close>; on an \<^verbatim>\<open>OAuth2Access\<close> instance one
  HTTP request is sent.
\<close>

theorem make_api_call_without_token:
  assumes "\<not> token_truthy token0" and "access_token (inst w) = None"
  shows "make_api_call E w kind url token0 method headers kw =
           (case self__make_api_call E w kind url None method headers kw of
              (Inl e, w1) \<Rightarrow> (Inl e, w1)
            | (Inr (response, content), w1) \<Rightarrow> (classify E kind response content, w1))
       \<and> (cls (inst w) = BaseAccess \<longrightarrow>
            make_api_call E w kind url token0 method headers kw = (Inl NotImplementedError, w))
       \<and> (cls (inst w) = OAuth2Access \<longrightarrow>
            (\<exists>rq. snd (make_api_call E w kind url token0 method headers kw) = send (HttpCall rq) w))"
proof -
  have eq: "make_api_call E w kind url token0 method headers kw =
           (case self__make_api_call E w kind url None method headers kw of
              (Inl e, w1) \<Rightarrow> (Inl e, w1)
            | (Inr (response, content), w1) \<Rightarrow> (classify E kind response content, w1))"
    using assms by (simp add: make_api_call_def)
  have base: "cls (inst w) = BaseAccess \<Longrightarrow>
      make_api_call E w kind url token0 method headers kw = (Inl NotImplementedError, w)"
    by (simp add: eq self__make_api_call_def)
  have oauth2: "\<exists>rq. snd (make_api_call E w kind url token0 method headers kw) = send (HttpCall rq) w"
    if "cls (inst w) = OAuth2Access"
  proof -
    obtain r rq where "OAuth2Access__make_api_call E w kind url None method headers kw
        = (r, send (HttpCall rq) w)"
      by (simp add: OAuth2Access__make_api_call_def Let_def)
    with that show ?thesis
      by (auto simp: eq self__make_api_call_def split: sum.splits prod.splits)
  qed
  from eq base oauth2 show ?thesis by blast
qed

theorem make_api_call_without_token_witness:
  "\<not> token_truthy None \<and> access_token (inst (example_world OAuthAccess None)) = None
   \<and> make_api_call (provider 200 ''200'' ''ok'') (example_world OAuthAccess None) ''raw''
        ''https://api.example/me'' None ''GET'' None no_kwargs
       = (Inr (Raw ''ok''),
          send (ClientCall
                 \<lparr>sreq_consumer = (''abc'', ''s3cret''), sreq_token = None,
                  sreq_url = ''https://api.example/me'', sreq_method = ''GET'',
                  sreq_force_auth_header = True, sreq_headers = None, sreq_body = None,
                  sreq_parameters = None\<rparr>)
            (example_world OAuthAccess None))"
proof -
  have h1: "\<not> token_truthy None" by simp
  have h2: "access_token (inst (example_world OAuthAccess None)) = None"
    by (simp add: example_world_def init_def)
  show ?thesis
    using make_api_call_without_token [OF h1 h2, of "provider 200 ''200'' ''ok''" "''raw''"
        "''https://api.example/me''" "''GET''" None no_kwargs]
    by (simp add: eval_defs)
qed

subsection \<open>C2: status 401\<close>

text \<open>
  C2: whatever the kind and the content (the empty content too), when \<^verbatim>\<open>_make_api_call\<close>
  returns a response whose status is \<^verbatim>\<open>"401"\<close>, \<^verbatim>\<open>make_api_call\<close> fails with
  \<^verbatim>\<open>NotAuthorized\<close>: the status is tested before the content is looked at.
\<close>

theorem make_api_call_unauthorized:
  assumes "self__make_api_call E w kind url
             (if token_truthy token0 then token0 else access_token (inst w)) method headers kw
           = (Inr (response, content), w1)"
    and "map_of (resp_fields response) ''status'' = Some ''401''"
  shows "make_api_call E w kind url token0 method headers kw = (Inl NotAuthorized, w1)"
  using assms by (simp add: make_api_call_def classify_def)

theorem make_api_call_unauthorized_witness:
  "make_api_call (provider 401 ''401'' []) (example_world OAuth2Access None) ''bogus''
        ''https://api.example/me'' (Some (TStr ''t0'')) ''GET'' None no_kwargs
     = (Inl NotAuthorized,
        send (HttpCall
               \<lparr>req_url = Some ''https://api.example/me?access_token=t0'',
                req_method = ''GET'', req_body = None, req_headers = None\<rparr>)
          (example_world OAuth2Access None))"
proof -
  have call: "self__make_api_call (provider 401 ''401'' []) (example_world OAuth2Access None)
        ''bogus'' ''https://api.example/me''
        (if token_truthy (Some (TStr ''t0'')) then Some (TStr ''t0'')
         else access_token (inst (example_world OAuth2Access None))) ''GET'' None no_kwargs
      = (Inr (\<lparr>resp_status = 401, resp_fields = [(''status'', ''401'')]\<rparr>, []),
         send (HttpCall
               \<lparr>req_url = Some ''https://api.example/me?access_token=t0'',
                req_method = ''GET'', req_body = None, req_headers = None\<rparr>)
          (example_world OAuth2Access None))"
    by (simp add: eval_defs)
  show ?thesis
    by (rule make_api_call_unauthorized [OF call]) simp
qed

subsection \<open>C7: a body that is no JSON\<close>

text \<open>
  C7: for a response that is not a 401, with content that is not empty and that
  \<^verbatim>\<open>json.loads\<close> rejects, \<^verbatim>\<open>make_api_call\<close> with kind \<^verbatim>\<open>"json"\<close> fails with
  \<^verbatim>\<open>ServiceFail("JSON parse error", content)\<close>, the content being the response's own.
\<close>

theorem make_api_call_json_parse_error:
  assumes "self__make_api_call E w kind url
             (if token_truthy token0 then token0 else access_token (inst w)) method headers kw
           = (Inr (response, content), w1)"
    and "map_of (resp_fields response) ''status'' = Some st" and "st \<noteq> ''401''"
    and "content \<noteq> []" and "json_loads E content = None" and "kind = ''json''"
  shows "make_api_call E w kind url token0 method headers kw
           = (Inl (ServiceFail ''JSON parse error'' (Some content)), w1)"
  using assms by (simp add: make_api_call_def classify_def)

theorem make_api_call_json_parse_error_witness:
  "make_api_call (provider 200 ''200'' ''<html>'') (example_world OAuth2Access None) ''json''
        ''https://api.example/me'' (Some (TStr ''t0'')) ''POST'' None no_kwargs
     = (Inl (ServiceFail ''JSON parse error'' (Some ''<html>'')),
        send (HttpCall
               \<lparr>req_url = Some ''https://api.example/me'',
                req_method = ''POST'', req_body = Some ''access_token=t0'', req_headers = None\<rparr>)
          (example_world OAuth2Access None))"
proof -
  have call: "self__make_api_call (provider 200 ''200'' ''<html>'') (example_world OAuth2Access None)
        ''json'' ''https://api.example/me''
        (if token_truthy (Some (TStr ''t0'')) then Some (TStr ''t0'')
         else access_token (inst (example_world OAuth2Access None))) ''POST'' None no_kwargs
      = (Inr (\<lparr>resp_status = 200, resp_fields = [(''status'', ''200'')]\<rparr>, ''<html>''),
         send (HttpCall
               \<lparr>req_url = Some ''https://api.example/me'',
                req_method = ''POST'', req_body = Some ''access_token=t0'', req_headers = None\<rparr>)
          (example_world OAuth2Access None))"
    by (simp add: eval_defs)
  have js: "json_loads (provider 200 ''200'' ''<html>'') ''<html>'' = None"
    by (simp add: provider_def)
  show ?thesis
    using make_api_call_json_parse_error [OF call _ _ _ js, where st = "''200''"] by simp
qed

subsection \<open>C8: no authorization code\<close>

text \<open>
  C8: on an OAuth2 instance without a code (none set, or the empty string)
  \<^verbatim>\<open>receive_access_tokens\<close> returns \<^verbatim>\<open>None\<close>: no error, no request sent, the instance as it
  was. The result \<open>Inr None\<close> is not the failure \<open>Inl MissingToken\<close>.
\<close>

theorem receive_access_tokens_without_code:
  assumes "code (inst w) = None \<or> code (inst w) = Some []"
  shows "OAuth2Access_receive_access_tokens E w http = (Inr None, w)"
  using assms by (auto simp: OAuth2Access_receive_access_tokens_def Let_def)

theorem receive_access_tokens_without_code_witness:
  "OAuth2Access_receive_access_tokens (provider 200 ''200'' ''ok'') (example_world OAuth2Access None) None
     = (Inr None, example_world OAuth2Access None)
   \<and> sent (example_world OAuth2Access None) = []
   \<and> access_token (inst (example_world OAuth2Access None)) = None"
proof -
  have "code (inst (example_world OAuth2Access None)) = None"
    by (simp add: example_world_def init_def)
  then show ?thesis
    using receive_access_tokens_without_code [of "example_world OAuth2Access None" "provider 200 ''200'' ''ok''" None]
    by (simp add: example_world_def init_def)
qed

subsection \<open>C3: the outcome of the code exchange\<close>

text \<open>
  C3 says that a code exchange with a status other than 200, or with a body without
  \<^verbatim>\<open>access_token\<close>, fails with \<^verbatim>\<open>MissingToken\<close> and stores nothing, and that status 200 with
  \<^verbatim>\<open>access_token\<close> present constructs and stores the bundle. Two inputs show otherwise.
  With status 200 and the body \<^verbatim>\<open>{"access_token": "t0", "expires_in": null}\<close>, line 217
  raises \<^verbatim>\<open>TypeError\<close> from \<^verbatim>\<open>int(None)\<close> and no token is stored. With status 500 and the
  body \<^verbatim>\<open>5\<close>, which is JSON but no mapping, line 210 raises \<^verbatim>\<open>TypeError\<close> from
  \<^verbatim>\<open>'expires' in 5\<close> before the status is looked at.
\<close>

theorem receive_access_tokens_exchange_counterexample:
  "OAuth2Access_receive_access_tokens
      (provider 200 ''200'' ''{\"access_token\": \"t0\", \"expires_in\": null}'')
      (example_world OAuth2Access (Some ''c0de'')) None
     = (Inl TypeError, send (HttpCall example_exchange) (example_world OAuth2Access (Some ''c0de'')))
   \<and> access_token (inst (send (HttpCall example_exchange)
                             (example_world OAuth2Access (Some ''c0de'')))) = None
   \<and> OAuth2Access_receive_access_tokens (provider 500 ''500'' ''5'')
        (example_world OAuth2Access (Some ''c0de'')) None
     = (Inl TypeError, send (HttpCall example_exchange) (example_world OAuth2Access (Some ''c0de'')))"
  by (simp add: eval_defs rename_expires_def build_token_def)

text \<open>
  C3 for a parsed body that is a mapping \<open>d\<close>: with a code present, if the status is not
  200 or \<open>d\<close> has no \<^verbatim>\<open>access_token\<close>, \<^verbatim>\<open>receive_access_tokens\<close> fails with \<^verbatim>\<open>MissingToken\<close>
  and the instance is unchanged; if the status is 200, \<^verbatim>\<open>access_token\<close> is present and the
  expiry field (\<^verbatim>\<open>expires\<close>, else \<^verbatim>\<open>expires_in\<close>) is absent or accepted by \<^verbatim>\<open>int\<close>, the bundle
  is returned and stored in \<^verbatim>\<open>self.access_token\<close>.
\<close>

theorem receive_access_tokens_exchange:
  assumes "code (inst w) = Some c" and "c \<noteq> []" and "callback_url (inst w) = Some cb"
    and "transport_of E http (exchange_request E (inst w) c cb) = Inr (resp, content)"
    and "parse_body E content = PDict d"
    and "w1 = send (HttpCall (exchange_request E (inst w) c cb)) w"
    and "refresh = (case map_of d ''refresh_token'' of None \<Rightarrow> PNone | Some r \<Rightarrow> r)"
    and "expiry = (case map_of d ''expires'' of None \<Rightarrow> map_of d ''expires_in'' | Some v \<Rightarrow> Some v)"
  shows "(resp_status resp \<noteq> 200 \<or> map_of d ''access_token'' = None \<longrightarrow>
            OAuth2Access_receive_access_tokens E w http = (Inl MissingToken, w1)
            \<and> inst w1 = inst w)
       \<and> (resp_status resp = 200 \<and> map_of d ''access_token'' = Some a \<and> expiry = None \<longrightarrow>
            OAuth2Access_receive_access_tokens E w http =
              (Inr (Some (TBundle (OAuth20Token a refresh None))),
               w1\<lparr>inst := (inst w)\<lparr>access_token := Some (TBundle (OAuth20Token a refresh None))\<rparr>\<rparr>))
       \<and> (resp_status resp = 200 \<and> map_of d ''access_token'' = Some a \<and> expiry = Some v
            \<and> py_int (int_of_str E) v = Inr i \<longrightarrow>
            OAuth2Access_receive_access_tokens E w http =
              (Inr (Some (TBundle (OAuth20Token a refresh (Some i)))),
               w1\<lparr>inst := (inst w)\<lparr>access_token := Some (TBundle (OAuth20Token a refresh (Some i)))\<rparr>\<rparr>))"
proof -
  have run: "OAuth2Access_receive_access_tokens E w http =
      (case build_token E resp (PDict (renamed d)) of
         Inl e \<Rightarrow> (Inl e, w1)
       | Inr t \<Rightarrow> (Inr (Some (TBundle t)), w1\<lparr>inst := (inst w)\<lparr>access_token := Some (TBundle t)\<rparr>\<rparr>))"
    unfolding assms(6) using assms(1-5) by (simp add: exchange_unfold exchange_dict)
  have at: "map_of (renamed d) ''access_token'' = map_of d ''access_token''"
    by (simp add: renamed_other)
  have rt: "map_of (renamed d) ''refresh_token'' = map_of d ''refresh_token''"
    by (simp add: renamed_other)
  have ex: "map_of (renamed d) ''expires_in'' = expiry"
    by (simp add: renamed_expires_in assms(8))
  have missing: "OAuth2Access_receive_access_tokens E w http = (Inl MissingToken, w1)"
    if "resp_status resp \<noteq> 200 \<or> map_of d ''access_token'' = None"
    using that by (auto simp: run build_token_dict at)
  have unchanged: "inst w1 = inst w"
    by (simp add: assms(6) inst_send)
  have none: "OAuth2Access_receive_access_tokens E w http =
              (Inr (Some (TBundle (OAuth20Token a refresh None))),
               w1\<lparr>inst := (inst w)\<lparr>access_token := Some (TBundle (OAuth20Token a refresh None))\<rparr>\<rparr>)"
    if "resp_status resp = 200" "map_of d ''access_token'' = Some a" "expiry = None"
    using that by (simp add: run build_token_dict at rt ex and_then_def assms(7))
  have some: "OAuth2Access_receive_access_tokens E w http =
              (Inr (Some (TBundle (OAuth20Token a refresh (Some i)))),
               w1\<lparr>inst := (inst w)\<lparr>access_token := Some (TBundle (OAuth20Token a refresh (Some i)))\<rparr>\<rparr>)"
    if "resp_status resp = 200" "map_of d ''access_token'' = Some a" "expiry = Some v"
       "py_int (int_of_str E) v = Inr i"
    using that by (simp add: run build_token_dict at rt ex and_then_def assms(7))
  from missing unchanged none some show ?thesis by blast
qed

theorem receive_access_tokens_exchange_witness:
  "OAuth2Access_receive_access_tokens
      (provider 500 ''500'' ''{\"access_token\": \"t0\", \"expires\": 3600}'')
      (example_world OAuth2Access (Some ''c0de'')) None
     = (Inl MissingToken, send (HttpCall example_exchange) (example_world OAuth2Access (Some ''c0de'')))
   \<and> OAuth2Access_receive_access_tokens (provider 200 ''200'' ''{\"error\": \"invalid_grant\"}'')
        (example_world OAuth2Access (Some ''c0de'')) None
     = (Inl MissingToken, send (HttpCall example_exchange) (example_world OAuth2Access (Some ''c0de'')))
   \<and> access_token (inst (send (HttpCall example_exchange)
                             (example_world OAuth2Access (Some ''c0de'')))) = None
   \<and> OAuth2Access_receive_access_tokens (provider 200 ''200'' ''access_token=t1'')
        (example_world OAuth2Access (Some ''c0de'')) None
     = (Inr (Some (TBundle (OAuth20Token (PStr ''t1'') PNone None))),
        (send (HttpCall example_exchange) (example_world OAuth2Access (Some ''c0de'')))
          \<lparr>inst := (inst (example_world OAuth2Access (Some ''c0de'')))
             \<lparr>access_token := Some (TBundle (OAuth20Token (PStr ''t1'') PNone None))\<rparr>\<rparr>)
   \<and> OAuth2Access_receive_access_tokens
        (provider 200 ''200'' ''{\"access_token\": \"t0\", \"expires\": 3600, \"expires_in\": 60}'')
        (example_world OAuth2Access (Some ''c0de'')) None
     = (Inr (Some (TBundle (OAuth20Token (PStr ''t0'') PNone (Some 3600)))),
        (send (HttpCall example_exchange) (example_world OAuth2Access (Some ''c0de'')))
          \<lparr>inst := (inst (example_world OAuth2Access (Some ''c0de'')))
             \<lparr>access_token := Some (TBundle (OAuth20Token (PStr ''t0'') PNone (Some 3600)))\<rparr>\<rparr>)"
proof -
  let ?w = "example_world OAuth2Access (Some ''c0de'')"
  let ?doc1 = "''{\"access_token\": \"t0\", \"expires\": 3600}''"
  let ?E1 = "provider 500 ''500'' ?doc1"
  let ?d1 = "[(''access_token'', PStr ''t0''), (''expires'', PInt 3600)]"
  let ?doc2 = "''{\"error\": \"invalid_grant\"}''"
  let ?E2 = "provider 200 ''200'' ?doc2"
  let ?d2 = "[(''error'', PStr ''invalid_grant'')]"
  let ?E3 = "provider 200 ''200'' ''access_token=t1''"
  let ?d3 = "[(''access_token'', PStr ''t1'')]"
  let ?doc4 = "''{\"access_token\": \"t0\", \"expires\": 3600, \"expires_in\": 60}''"
  let ?E4 = "provider 200 ''200'' ?doc4"
  let ?d4 = "[(''access_token'', PStr ''t0''), (''expires'', PInt 3600), (''expires_in'', PInt 60)]"
  have nonempty: "''c0de'' \<noteq> []" by simp
  have t1: "transport_of ?E1 None (exchange_request ?E1 (inst ?w) ''c0de'' ''https://app.example/cb'')
      = Inr (\<lparr>resp_status = 500, resp_fields = [(''status'', ''500'')]\<rparr>, ?doc1)"
    by (simp add: example_exchange_request example_transport answer_def)
  have p1: "parse_body ?E1 ?doc1 = PDict ?d1"
    by (simp add: parse_body_def provider_def)
  have t2: "transport_of ?E2 None (exchange_request ?E2 (inst ?w) ''c0de'' ''https://app.example/cb'')
      = Inr (\<lparr>resp_status = 200, resp_fields = [(''status'', ''200'')]\<rparr>, ?doc2)"
    by (simp add: example_exchange_request example_transport answer_def)
  have p2: "parse_body ?E2 ?doc2 = PDict ?d2"
    by (simp add: parse_body_def provider_def)
  have t3: "transport_of ?E3 None (exchange_request ?E3 (inst ?w) ''c0de'' ''https://app.example/cb'')
      = Inr (\<lparr>resp_status = 200, resp_fields = [(''status'', ''200'')]\<rparr>, ''access_token=t1'')"
    by (simp add: example_exchange_request example_transport answer_def)
  have p3: "parse_body ?E3 ''access_token=t1'' = PDict ?d3"
    by (simp add: parse_body_def provider_def py_dict_def)
  have t4: "transport_of ?E4 None (exchange_request ?E4 (inst ?w) ''c0de'' ''https://app.example/cb'')
      = Inr (\<lparr>resp_status = 200, resp_fields = [(''status'', ''200'')]\<rparr>, ?doc4)"
    by (simp add: example_exchange_request example_transport answer_def)
  have p4: "parse_body ?E4 ?doc4 = PDict ?d4"
    by (simp add: parse_body_def provider_def)
  note a = receive_access_tokens_exchange [OF example_code(1) nonempty example_code(2) t1 p1 refl refl refl]
  note b = receive_access_tokens_exchange [OF example_code(1) nonempty example_code(2) t2 p2 refl refl refl]
  note c = receive_access_tokens_exchange [OF example_code(1) nonempty example_code(2) t3 p3 refl refl refl,
      where a = "PStr ''t1''"]
  note d = receive_access_tokens_exchange [OF example_code(1) nonempty example_code(2) t4 p4 refl refl refl,
      where a = "PStr ''t0''" and v = "PInt 3600" and i = 3600]
  have unchanged: "access_token (inst (send (HttpCall example_exchange) ?w)) = None"
    by (simp add: inst_send example_world_def init_def)
  show ?thesis
    using a b c d unchanged by (simp add: example_exchange_request)
qed

subsection \<open>C5: \<^verbatim>\<open>expires\<close> read as the expiry\<close>

text \<open>
  C5: when the parsed body of a successful code exchange (status 200, \<^verbatim>\<open>access_token\<close>
  present) has \<^verbatim>\<open>expires\<close> equal to 3600 and no \<^verbatim>\<open>expires_in\<close>, the bundle that is returned
  and stored has the expiry 3600, an integer. The value may be the JSON number 3600 or,
  as in a url-encoded body, a string that \<^verbatim>\<open>int\<close> reads as 3600.
\<close>

theorem receive_access_tokens_expires_3600:
  assumes "code (inst w) = Some c" and "c \<noteq> []" and "callback_url (inst w) = Some cb"
    and "transport_of E http (exchange_request E (inst w) c cb) = Inr (resp, content)"
    and "parse_body E content = PDict d"
    and "resp_status resp = 200" and "map_of d ''access_token'' = Some a"
    and "map_of d ''expires'' = Some v" and "map_of d ''expires_in'' = None"
    and "v = PInt 3600 \<or> (\<exists>s. v = PStr s \<and> int_of_str E s = Some 3600)"
  shows "\<exists>t. OAuth2Access_receive_access_tokens E w http =
              (Inr (Some (TBundle t)),
               (send (HttpCall (exchange_request E (inst w) c cb)) w)
                 \<lparr>inst := (inst w)\<lparr>access_token := Some (TBundle t)\<rparr>\<rparr>)
           \<and> bundle_access_token t = a \<and> bundle_expires_in t = Some 3600"
proof -
  from assms(10) have "py_int (int_of_str E) v = Inr 3600" by auto
  then have "build_token E resp (PDict (renamed d)) =
      Inr (OAuth20Token a (case map_of d ''refresh_token'' of None \<Rightarrow> PNone | Some r \<Rightarrow> r) (Some 3600))"
    by (simp add: build_token_renamed [OF assms(6-8)] and_then_def)
  then show ?thesis
    by (simp add: exchange_run [OF assms(1-5)] OAuth20Token_def)
qed

theorem receive_access_tokens_expires_3600_witness:
  "\<exists>t. OAuth2Access_receive_access_tokens
          (provider 200 ''200'' ''{\"access_token\": \"t0\", \"expires\": 3600}'')
          (example_world OAuth2Access (Some ''c0de'')) None
        = (Inr (Some (TBundle t)),
           (send (HttpCall example_exchange) (example_world OAuth2Access (Some ''c0de'')))
             \<lparr>inst := (inst (example_world OAuth2Access (Some ''c0de'')))
                \<lparr>access_token := Some (TBundle t)\<rparr>\<rparr>)
      \<and> bundle_access_token t = PStr ''t0'' \<and> bundle_expires_in t = Some 3600"
proof -
  let ?w = "example_world OAuth2Access (Some ''c0de'')"
  let ?doc = "''{\"access_token\": \"t0\", \"expires\": 3600}''"
  let ?E = "provider 200 ''200'' ?doc"
  let ?d = "[(''access_token'', PStr ''t0''), (''expires'', PInt 3600)]"
  have nonempty: "''c0de'' \<noteq> []" by simp
  have t: "transport_of ?E None (exchange_request ?E (inst ?w) ''c0de'' ''https://app.example/cb'')
      = Inr (\<lparr>resp_status = 200, resp_fields = [(''status'', ''200'')]\<rparr>, ?doc)"
    by (simp add: example_exchange_request example_transport answer_def)
  have p: "parse_body ?E ?doc = PDict ?d"
    by (simp add: parse_body_def provider_def)
  have st: "resp_status \<lparr>resp_status = 200, resp_fields = [(''status'', ''200'')]\<rparr> = 200" by simp
  have a: "map_of ?d ''access_token'' = Some (PStr ''t0'')" by simp
  have e: "map_of ?d ''expires'' = Some (PInt 3600)" by simp
  have n: "map_of ?d ''expires_in'' = None" by simp
  have v: "PInt 3600 = PInt 3600 \<or> (\<exists>s. PInt 3600 = PStr s \<and> int_of_str ?E s = Some 3600)" by simp
  show ?thesis
    using receive_access_tokens_expires_3600 [OF example_code(1) nonempty example_code(2) t p st a e n v]
    by (simp add: example_exchange_request)
qed

subsection \<open>C9: \<^verbatim>\<open>expires\<close> wins over \<^verbatim>\<open>expires_in\<close>\<close>

text \<open>
  C9: when the parsed body has both \<^verbatim>\<open>expires\<close> (value \<open>v\<close>) and \<^verbatim>\<open>expires_in\<close> (value \<open>u\<close>),
  lines 210 and 211 leave a dict in which \<^verbatim>\<open>expires_in\<close> is \<open>v\<close>, \<^verbatim>\<open>expires\<close> is gone and every
  other key is as before; the expiry of the bundle is then \<^verbatim>\<open>int(v)\<close>, and \<open>u\<close> plays no
  part: the outcome of the exchange is written without it.
\<close>

theorem expires_replaces_expires_in:
  assumes "code (inst w) = Some c" and "c \<noteq> []" and "callback_url (inst w) = Some cb"
    and "transport_of E http (exchange_request E (inst w) c cb) = Inr (resp, content)"
    and "parse_body E content = PDict d"
    and "map_of d ''expires'' = Some v" and "map_of d ''expires_in'' = Some u"
    and "w1 = send (HttpCall (exchange_request E (inst w) c cb)) w"
  shows "(\<exists>d'. rename_expires (PDict d) = Inr (PDict d')
              \<and> map_of d' ''expires_in'' = Some v \<and> map_of d' ''expires'' = None
              \<and> (\<forall>k. k \<noteq> ''expires'' \<and> k \<noteq> ''expires_in'' \<longrightarrow> map_of d' k = map_of d k))
       \<and> (resp_status resp = 200 \<and> map_of d ''access_token'' = Some a \<longrightarrow>
            OAuth2Access_receive_access_tokens E w http =
              (case py_int (int_of_str E) v of
                 Inl e \<Rightarrow> (Inl e, w1)
               | Inr i \<Rightarrow>
                   (Inr (Some (TBundle (OAuth20Token a
                      (case map_of d ''refresh_token'' of None \<Rightarrow> PNone | Some r \<Rightarrow> r) (Some i)))),
                    w1\<lparr>inst := (inst w)\<lparr>access_token := Some (TBundle (OAuth20Token a
                      (case map_of d ''refresh_token'' of None \<Rightarrow> PNone | Some r \<Rightarrow> r) (Some i)))\<rparr>\<rparr>)))"
proof -
  have "rename_expires (PDict d) = Inr (PDict (renamed d))"
    by (rule rename_expires_dict)
  moreover have "map_of (renamed d) ''expires_in'' = Some v"
    by (simp add: renamed_expires_in assms(6))
  moreover have "map_of (renamed d) ''expires'' = None"
    by (rule renamed_expires)
  moreover have "\<forall>k. k \<noteq> ''expires'' \<and> k \<noteq> ''expires_in'' \<longrightarrow> map_of (renamed d) k = map_of d k"
    by (simp add: renamed_other)
  ultimately have first: "\<exists>d'. rename_expires (PDict d) = Inr (PDict d')
              \<and> map_of d' ''expires_in'' = Some v \<and> map_of d' ''expires'' = None
              \<and> (\<forall>k. k \<noteq> ''expires'' \<and> k \<noteq> ''expires_in'' \<longrightarrow> map_of d' k = map_of d k)"
    by blast
  have second: "OAuth2Access_receive_access_tokens E w http =
              (case py_int (int_of_str E) v of
                 Inl e \<Rightarrow> (Inl e, w1)
               | Inr i \<Rightarrow>
                   (Inr (Some (TBundle (OAuth20Token a
                      (case map_of d ''refresh_token'' of None \<Rightarrow> PNone | Some r \<Rightarrow> r) (Some i)))),
                    w1\<lparr>inst := (inst w)\<lparr>access_token := Some (TBundle (OAuth20Token a
                      (case map_of d ''refresh_token'' of None \<Rightarrow> PNone | Some r \<Rightarrow> r) (Some i)))\<rparr>\<rparr>))"
    if "resp_status resp = 200" "map_of d ''access_token'' = Some a"
    unfolding assms(8)
    by (simp add: exchange_run [OF assms(1-5)] build_token_renamed [OF that assms(6)] and_then_def
          split: sum.splits)
  from first second show ?thesis by blast
qed

theorem expires_replaces_expires_in_witness:
  "rename_expires (PDict [(''access_token'', PStr ''t0''), (''expires'', PInt 3600),
                          (''expires_in'', PInt 60)])
     = Inr (PDict [(''access_token'', PStr ''t0''), (''expires_in'', PInt 3600)])
   \<and> OAuth2Access_receive_access_tokens
        (provider 200 ''200'' ''{\"access_token\": \"t0\", \"expires\": 3600, \"expires_in\": 60}'')
        (example_world OAuth2Access (Some ''c0de'')) None
      = (Inr (Some (TBundle (OAuth20Token (PStr ''t0'') PNone (Some 3600)))),
         (send (HttpCall example_exchange) (example_world OAuth2Access (Some ''c0de'')))
           \<lparr>inst := (inst (example_world OAuth2Access (Some ''c0de'')))
              \<lparr>access_token := Some (TBundle (OAuth20Token (PStr ''t0'') PNone (Some 3600)))\<rparr>\<rparr>)"
proof -
  let ?w = "example_world OAuth2Access (Some ''c0de'')"
  let ?doc = "''{\"access_token\": \"t0\", \"expires\": 3600, \"expires_in\": 60}''"
  let ?E = "provider 200 ''200'' ?doc"
  let ?d = "[(''access_token'', PStr ''t0''), (''expires'', PInt 3600), (''expires_in'', PInt 60)]"
  have nonempty: "''c0de'' \<noteq> []" by simp
  have t: "transport_of ?E None (exchange_request ?E (inst ?w) ''c0de'' ''https://app.example/cb'')
      = Inr (\<lparr>resp_status = 200, resp_fields = [(''status'', ''200'')]\<rparr>, ?doc)"
    by (simp add: example_exchange_request example_transport answer_def)
  have p: "parse_body ?E ?doc = PDict ?d"
    by (simp add: parse_body_def provider_def)
  have e: "map_of ?d ''expires'' = Some (PInt 3600)" by simp
  have n: "map_of ?d ''expires_in'' = Some (PInt 60)" by simp
  show ?thesis
    using expires_replaces_expires_in [OF example_code(1) nonempty example_code(2) t p e n refl,
        where a = "PStr ''t0''"]
    by (simp add: example_exchange_request rename_expires_dict renamed_def)
qed

subsection \<open>C4: the request token\<close>

text \<open>
  C4: \<^verbatim>\<open>OAuthAccess.get_tokens\<close>, once the signing client has answered. With the status
  \<^verbatim>\<open>"200"\<close> it stores \<^verbatim>\<open>oauth_token\<close> and \<^verbatim>\<open>oauth_token_secret\<close> as read from the parsed body and
  returns the mapping of the same two values; for a well-formed body (every key once,
  both keys there) these are exactly the returned token and secret. With any other
  status it fails with the generic exception \<^verbatim>\<open>Invalid response <status>.\<close> and the instance is
  as it was.
\<close>

theorem get_tokens_request_token:
  assumes "OAuthAccess_get_auth_params (inst w) = Inr auth_params"
    and "oauth_client_request E (request_token_request E (inst w) auth_params) = Inr (resp, content)"
    and "map_of (resp_fields resp) ''status'' = Some st"
    and "w1 = send (OAuthClientCall (request_token_request E (inst w) auth_params)) w"
  shows "(st = ''200'' \<longrightarrow>
            OAuthAccess_get_tokens E w =
              (Inr (PDict [(''oauth_token'', qs_get (py_dict (parse_qsl E content)) ''oauth_token''),
                           (''oauth_token_secret'',
                            qs_get (py_dict (parse_qsl E content)) ''oauth_token_secret'')]),
               w1\<lparr>inst := (inst w)
                  \<lparr>oauth_token := Some (qs_get (py_dict (parse_qsl E content)) ''oauth_token''),
                   oauth_token_secret :=
                     Some (qs_get (py_dict (parse_qsl E content)) ''oauth_token_secret'')\<rparr>\<rparr>))
       \<and> (st = ''200'' \<and> distinct (map fst (parse_qsl E content))
            \<and> (''oauth_token'', t) \<in> set (parse_qsl E content)
            \<and> (''oauth_token_secret'', s) \<in> set (parse_qsl E content) \<longrightarrow>
            OAuthAccess_get_tokens E w =
              (Inr (PDict [(''oauth_token'', PStr t), (''oauth_token_secret'', PStr s)]),
               w1\<lparr>inst := (inst w)\<lparr>oauth_token := Some (PStr t),
                                     oauth_token_secret := Some (PStr s)\<rparr>\<rparr>))
       \<and> (st \<noteq> ''200'' \<longrightarrow>
            OAuthAccess_get_tokens E w = (Inl (Exception (''Invalid response '' @ st @ ''.'')), w1)
            \<and> inst w1 = inst w)"
proof -
  have ok: "OAuthAccess_get_tokens E w =
              (Inr (PDict [(''oauth_token'', qs_get (py_dict (parse_qsl E content)) ''oauth_token''),
                           (''oauth_token_secret'',
                            qs_get (py_dict (parse_qsl E content)) ''oauth_token_secret'')]),
               w1\<lparr>inst := (inst w)
                  \<lparr>oauth_token := Some (qs_get (py_dict (parse_qsl E content)) ''oauth_token''),
                   oauth_token_secret :=
                     Some (qs_get (py_dict (parse_qsl E content)) ''oauth_token_secret'')\<rparr>\<rparr>)"
    if "st = ''200''"
    unfolding assms(4) using assms(1-3) that by (simp add: OAuthAccess_get_tokens_def Let_def)
  have wellformed: "OAuthAccess_get_tokens E w =
              (Inr (PDict [(''oauth_token'', PStr t), (''oauth_token_secret'', PStr s)]),
               w1\<lparr>inst := (inst w)\<lparr>oauth_token := Some (PStr t),
                                     oauth_token_secret := Some (PStr s)\<rparr>\<rparr>)"
    if "st = ''200''" "distinct (map fst (parse_qsl E content))"
       "(''oauth_token'', t) \<in> set (parse_qsl E content)"
       "(''oauth_token_secret'', s) \<in> set (parse_qsl E content)"
    using that by (simp add: ok qs_get_py_dict)
  have bad: "OAuthAccess_get_tokens E w = (Inl (Exception (''Invalid response '' @ st @ ''.'')), w1)"
    if "st \<noteq> ''200''"
    unfolding assms(4) using assms(1-3) that by (simp add: OAuthAccess_get_tokens_def Let_def)
  have unchanged: "inst w1 = inst w"
    by (simp add: assms(4) inst_send)
  from ok wellformed bad unchanged show ?thesis by blast
qed

theorem get_tokens_request_token_witness:
  "OAuthAccess_get_tokens (provider 200 ''200'' ''oauth_token=rt&oauth_token_secret=rs'')
      (example_world OAuthAccess None)
     = (Inr (PDict [(''oauth_token'', PStr ''rt''), (''oauth_token_secret'', PStr ''rs'')]),
        (send (OAuthClientCall example_request_token) (example_world OAuthAccess None))
          \<lparr>inst := (inst (example_world OAuthAccess None))
             \<lparr>oauth_token := Some (PStr ''rt''), oauth_token_secret := Some (PStr ''rs'')\<rparr>\<rparr>)
   \<and> OAuthAccess_get_tokens (provider 503 ''503'' ''oauth_token=rt&oauth_token_secret=rs'')
        (example_world OAuthAccess None)
     = (Inl (Exception ''Invalid response 503.''),
        send (OAuthClientCall example_request_token) (example_world OAuthAccess None))"
proof -
  let ?w = "example_world OAuthAccess None"
  let ?body = "''oauth_token=rt&oauth_token_secret=rs''"
  let ?E1 = "provider 200 ''200'' ?body"
  let ?E2 = "provider 503 ''503'' ?body"
  let ?ap = "[(''oauth_callback'', ''https://app.example/cb'')]"
  have r1: "oauth_client_request ?E1 (request_token_request ?E1 (inst ?w) ?ap)
      = Inr (\<lparr>resp_status = 200, resp_fields = [(''status'', ''200'')]\<rparr>, ?body)"
    by (simp add: provider_def answer_def)
  have r2: "oauth_client_request ?E2 (request_token_request ?E2 (inst ?w) ?ap)
      = Inr (\<lparr>resp_status = 503, resp_fields = [(''status'', ''503'')]\<rparr>, ?body)"
    by (simp add: provider_def answer_def)
  have s1: "map_of (resp_fields \<lparr>resp_status = 200, resp_fields = [(''status'', ''200'')]\<rparr>) ''status''
      = Some ''200''" by simp
  have s2: "map_of (resp_fields \<lparr>resp_status = 503, resp_fields = [(''status'', ''503'')]\<rparr>) ''status''
      = Some ''503''" by simp
  have q: "parse_qsl ?E1 ?body = [(''oauth_token'', ''rt''), (''oauth_token_secret'', ''rs'')]"
    by (simp add: provider_def)
  note a = get_tokens_request_token [OF example_auth_params r1 s1 refl,
      where t = "''rt''" and s = "''rs''"]
  note b = get_tokens_request_token [OF example_auth_params r2 s2 refl]
  show ?thesis
    using a b by (simp add: example_request_token_request q qs_get_def py_dict_def)
qed

subsection \<open>C6: the authorization URL of an OAuth2 flow\<close>

text \<open>
  C6: for an OAuth2 instance with the authorize URL \<^verbatim>\<open>https://p.example/auth\<close>, the consumer
  key \<^verbatim>\<open>abc\<close>, the callback \<^verbatim>\<open>https://app.example/cb\<close>, no scope and no extra parameters,
  \<^verbatim>\<open>get_auth_url\<close> returns the authorize URL, a question mark and the three encoded
  parameters joined by \<^verbatim>\<open>&\<close>, in the order in which the dict lists them; listed as written,
  that is the string of the claim. The function has no transport to call, and its
  result does not depend on the transports of the environment.
\<close>

theorem oauth2_get_auth_url_example:
  assumes "authorize_url self = Some ''https://p.example/auth''" and "consumer_key self = ''abc''"
    and "callback_url self = Some ''https://app.example/cb''"
    and "scope_urls self = []" and "extra_auth_params self = []"
    and "auth_params = [(''client_id'', ''abc''), (''redirect_uri'', ''https://app.example/cb''),
                        (''response_type'', ''code'')]"
    and "mset (dict_items E auth_params) = mset auth_params"
  shows "(\<exists>ps. OAuth2Access_get_auth_url E self = Inr (''https://p.example/auth?'' @ join ''&'' ps)
             \<and> mset ps = {#''client_id=abc'', ''redirect_uri=https%3A%2F%2Fapp.example%2Fcb'',
                           ''response_type=code''#})
       \<and> (dict_items E auth_params = auth_params \<longrightarrow>
            OAuth2Access_get_auth_url E self =
              Inr ''https://p.example/auth?client_id=abc&redirect_uri=https%3A%2F%2Fapp.example%2Fcb&response_type=code'')
       \<and> OAuth2Access_get_auth_url
            (E\<lparr>http_request := h1, oauth_client_request := h2, client_request := h3\<rparr>) self
          = OAuth2Access_get_auth_url E self"
proof -
  have url: "OAuth2Access_get_auth_url E self =
      Inr (''https://p.example/auth?'' @ join ''&'' (map urlencode_pair (dict_items E auth_params)))"
    using assms(1-5)
    by (simp add: OAuth2Access_get_auth_url_def OAuth2Access_get_auth_params_def get_params_def
          urlencode_def and_then_def assms(6))
  have enc: "image_mset urlencode_pair (mset auth_params) =
      {#''client_id=abc'', ''redirect_uri=https%3A%2F%2Fapp.example%2Fcb'', ''response_type=code''#}"
    by (simp add: assms(6) urlencode_pair_def quote_plus_def quote_char_def always_safe_def hex_digit_def)
  have set: "mset (map urlencode_pair (dict_items E auth_params)) =
      {#''client_id=abc'', ''redirect_uri=https%3A%2F%2Fapp.example%2Fcb'', ''response_type=code''#}"
    using mset_map_listing [OF assms(7), of urlencode_pair] enc by simp
  have exact: "OAuth2Access_get_auth_url E self =
      Inr ''https://p.example/auth?client_id=abc&redirect_uri=https%3A%2F%2Fapp.example%2Fcb&response_type=code''"
    if "dict_items E auth_params = auth_params"
    unfolding url that
    by (simp add: assms(6) urlencode_pair_def quote_plus_def quote_char_def always_safe_def hex_digit_def)
  have pure: "OAuth2Access_get_auth_url
            (E\<lparr>http_request := h1, oauth_client_request := h2, client_request := h3\<rparr>) self
          = OAuth2Access_get_auth_url E self"
    by (simp add: OAuth2Access_get_auth_url_def get_params_def)
  from url set exact pure show ?thesis by blast
qed

theorem oauth2_get_auth_url_example_witness:
  "OAuth2Access_get_auth_url (provider 200 ''200'' ''ok'')
       ((init OAuth2Access ''abc'' ''s3cret'')
          \<lparr>authorize_url := Some ''https://p.example/auth'',
           callback_url := Some ''https://app.example/cb''\<rparr>)
     = Inr ''https://p.example/auth?client_id=abc&redirect_uri=https%3A%2F%2Fapp.example%2Fcb&response_type=code''"
proof -
  let ?self = "(init OAuth2Access ''abc'' ''s3cret'')
          \<lparr>authorize_url := Some ''https://p.example/auth'',
           callback_url := Some ''https://app.example/cb''\<rparr>"
  let ?E = "provider 200 ''200'' ''ok''"
  let ?ap = "[(''client_id'', ''abc''), (''redirect_uri'', ''https://app.example/cb''),
              (''response_type'', ''code'')]"
  have a: "authorize_url ?self = Some ''https://p.example/auth''" by (simp add: init_def)
  have k: "consumer_key ?self = ''abc''" by (simp add: init_def)
  have c: "callback_url ?self = Some ''https://app.example/cb''" by (simp add: init_def)
  have s: "scope_urls ?self = []" by (simp add: init_def)
  have x: "extra_auth_params ?self = []" by (simp add: init_def)
  have m: "mset (dict_items ?E ?ap) = mset ?ap" by (simp add: provider_def)
  have i: "dict_items ?E ?ap = ?ap" by (simp add: provider_def)
  show ?thesis
    using oauth2_get_auth_url_example [OF a k c s x refl m] i by blast
qed

subsection \<open>C10: an \<^verbatim>\<open>access_token\<close> among the caller's parameters\<close>

text \<open>
  C10: in \<^verbatim>\<open>OAuth2Access._make_api_call\<close> the caller's \<^verbatim>\<open>params\<close> are merged into the dict
  that already holds \<^verbatim>\<open>access_token = str(token)\<close>. When they have the key \<^verbatim>\<open>access_token\<close>
  with the value \<open>v\<close>, the merged dict has that key once, with \<open>v\<close>, and this dict is what
  goes out: url-encoded as the body of a POST without files, as the fields given to the
  multipart encoder of a POST with files, and url-encoded as the query string of
  every other method.
\<close>

theorem oauth2_caller_access_token:
  assumes "kw_params kw = Some ps" and "map_of ps ''access_token'' = Some v"
    and "params = AList.merge [(''access_token'', str_token E token)] ps"
    and "mset (dict_items E params) = mset params"
  shows "filter (\<lambda>p. fst p = ''access_token'') (dict_items E params) = [(''access_token'', v)]
       \<and> map_of params ''access_token'' = Some v
       \<and> (method = ''POST'' \<and> kw_files kw = None \<longrightarrow>
            (let rq = \<lparr>req_url = Some url, req_method = method,
                       req_body = Some (urlencode (dict_items E) params),
                       req_headers = headers_given headers\<rparr>
             in OAuth2Access__make_api_call E w kind url token method headers kw
                  = (http_request E rq, send (HttpCall rq) w)))
       \<and> (method = ''POST'' \<and> kw_files kw = Some fs \<longrightarrow>
            (let rq = \<lparr>req_url = Some url, req_method = method,
                       req_body = Some (snd (get_headers_and_body E params fs)),
                       req_headers = Some (fst (get_headers_and_body E params fs))\<rparr>
             in OAuth2Access__make_api_call E w kind url token method headers kw
                  = (http_request E rq, send (HttpCall rq) w)))
       \<and> (method \<noteq> ''POST'' \<longrightarrow>
            (let rq = \<lparr>req_url = Some (url @ ''?'' @ urlencode (dict_items E) params),
                       req_method = method, req_body = None,
                       req_headers = headers_given headers\<rparr>
             in OAuth2Access__make_api_call E w kind url token method headers kw
                  = (http_request E rq, send (HttpCall rq) w)))"
proof -
  have one: "filter (\<lambda>p. fst p = ''access_token'') params = [(''access_token'', v)]"
    unfolding assms(3) using assms(2) by (rule merge_access_token)
  have listed: "filter (\<lambda>p. fst p = ''access_token'') (dict_items E params) = [(''access_token'', v)]"
    using assms(4) one by (rule filter_listing)
  have looked_up: "map_of params ''access_token'' = Some v"
    using assms(2) by (simp add: assms(3))
  have post: "OAuth2Access__make_api_call E w kind url token method headers kw
                  = (http_request E rq, send (HttpCall rq) w)"
    if "method = ''POST''" "kw_files kw = None"
       "rq = \<lparr>req_url = Some url, req_method = method,
              req_body = Some (urlencode (dict_items E) params),
              req_headers = headers_given headers\<rparr>" for rq
    using that assms(1) by (simp add: OAuth2Access__make_api_call_def assms(3) Let_def)
  have multipart: "OAuth2Access__make_api_call E w kind url token method headers kw
                  = (http_request E rq, send (HttpCall rq) w)"
    if "method = ''POST''" "kw_files kw = Some fs"
       "rq = \<lparr>req_url = Some url, req_method = method,
              req_body = Some (snd (get_headers_and_body E params fs)),
              req_headers = Some (fst (get_headers_and_body E params fs))\<rparr>" for rq
    using that assms(1)
    by (simp add: OAuth2Access__make_api_call_def assms(3) split_beta Let_def)
  have query: "OAuth2Access__make_api_call E w kind url token method headers kw
                  = (http_request E rq, send (HttpCall rq) w)"
    if "method \<noteq> ''POST''"
       "rq = \<lparr>req_url = Some (url @ ''?'' @ urlencode (dict_items E) params),
              req_method = method, req_body = None,
              req_headers = headers_given headers\<rparr>" for rq
    using that assms(1) by (simp add: OAuth2Access__make_api_call_def assms(3) Let_def)
  from listed looked_up post multipart query show ?thesis
    unfolding Let_def by blast
qed

theorem oauth2_caller_access_token_witness:
  "OAuth2Access__make_api_call (provider 200 ''200'' ''ok'') (example_world OAuth2Access None)
       ''raw'' ''https://api.example/me'' (Some (TStr ''t0'')) ''GET'' None
       \<lparr>kw_params = Some [(''q'', ''x y''), (''access_token'', ''mine'')], kw_files = None\<rparr>
     = (Inr (answer 200 ''200'' ''ok''),
        send (HttpCall \<lparr>req_url = Some ''https://api.example/me?access_token=mine&q=x+y'',
                        req_method = ''GET'', req_body = None, req_headers = None\<rparr>)
          (example_world OAuth2Access None))"
proof -
  let ?E = "provider 200 ''200'' ''ok''"
  let ?ps = "[(''q'', ''x y''), (''access_token'', ''mine'')]"
  let ?kw = "\<lparr>kw_params = Some ?ps, kw_files = None :: unit option\<rparr>"
  let ?params = "AList.merge [(''access_token'', str_token ?E (Some (TStr ''t0'')))] ?ps"
  have k: "kw_params ?kw = Some ?ps" by simp
  have v: "map_of ?ps ''access_token'' = Some ''mine''" by simp
  have m: "mset (dict_items ?E ?params) = mset ?params" by (simp add: provider_def)
  have g: "''GET'' \<noteq> ''POST''" by simp
  show ?thesis
    using oauth2_caller_access_token [OF k v refl m, of "''GET''" "''https://api.example/me''" None]
      g
    by (simp add: eval_defs)
qed

end
